theory Spec2Isabelle
  imports Complex_Main "HOL-Library.Word" "HOL-Library.Sublist"
begin

section \<open>Buffers and the response parsers\<close>

text \<open>
  A \<open>Buffer\<close> is a sequence of bytes. The two reads the parsers use come from the
  \<open>buffer\<close> package: each first checks \<open>offset + width \<le> length\<close> and throws a
  \<open>RangeError\<close> otherwise; only after the check does it index the bytes.
  A thrown error is the \<open>Inl\<close> branch of the result.
\<close>

type_synonym byte = "8 word"
type_synonym buffer = "byte list"

datatype js_error = RangeError | TypeError | Error string

definition checkOffset :: "nat \<Rightarrow> nat \<Rightarrow> nat \<Rightarrow> js_error + unit" where
  "checkOffset offset ext len = (if offset + ext > len then Inl RangeError else Inr ())"

definition readUInt16BE :: "buffer \<Rightarrow> nat \<Rightarrow> js_error + nat" where
  "readUInt16BE buf offset =
     (case checkOffset offset 2 (length buf) of
        Inl e \<Rightarrow> Inl e
      | Inr _ \<Rightarrow> Inr (unat (buf ! offset) * 256 + unat (buf ! (offset + 1))))"

definition readUInt16LE :: "buffer \<Rightarrow> nat \<Rightarrow> js_error + nat" where
  "readUInt16LE buf offset =
     (case checkOffset offset 2 (length buf) of
        Inl e \<Rightarrow> Inl e
      | Inr _ \<Rightarrow> Inr (unat (buf ! offset) + unat (buf ! (offset + 1)) * 256))"

definition readUInt32BE :: "buffer \<Rightarrow> nat \<Rightarrow> js_error + nat" where
  "readUInt32BE buf offset =
     (case checkOffset offset 4 (length buf) of
        Inl e \<Rightarrow> Inl e
      | Inr _ \<Rightarrow>
          Inr (unat (buf ! offset) * 16777216
               + (unat (buf ! (offset + 1)) * 65536
                  + unat (buf ! (offset + 2)) * 256
                  + unat (buf ! (offset + 3)))))"

text \<open>
  \<open>parseBatteryVoltage\<close> and \<open>parseMeterReading\<close> of the latest screen variant
  (\<open>App.tsx\<close>, the variant with six characteristic reads). Both wrap the read in
  \<open>try\<close>/\<open>catch\<close>; the \<open>catch\<close> logs and returns \<open>null\<close>, which is \<open>None\<close> here.
  The quotient \<open>raw / 1000\<close> is a JavaScript number; it is modelled by the exact
  quotient in \<open>real\<close>.
\<close>

definition parseBatteryVoltage :: "buffer \<Rightarrow> real option" where
  "parseBatteryVoltage decodedValue =
     (let offset = 3 in
      case readUInt16BE decodedValue offset of
        Inl e \<Rightarrow> None
      | Inr batteryVoltageRaw \<Rightarrow> Some (real batteryVoltageRaw / 1000))"

definition parseMeterReading :: "buffer \<Rightarrow> nat option" where
  "parseMeterReading decodedValue =
     (let offset = 3 in
      case readUInt32BE decodedValue offset of
        Inl e \<Rightarrow> None
      | Inr meterReadingRaw \<Rightarrow> Some meterReadingRaw)"

text \<open>
  The earlier screen variant of \<open>parseBatteryVoltage\<close> (the one that also sends the
  request): it reads 32 bits at offset 0.
\<close>

definition parseBatteryVoltage_v1 :: "buffer \<Rightarrow> real option" where
  "parseBatteryVoltage_v1 decodedValue =
     (case readUInt32BE decodedValue 0 of
        Inl e \<Rightarrow> None
      | Inr batteryVoltageRaw \<Rightarrow> Some (real batteryVoltageRaw / 1000))"

text \<open>
  The reference reading of a byte sequence as a big-endian unsigned integer,
  most significant byte first.
\<close>

definition be_nat :: "byte list \<Rightarrow> nat" where
  "be_nat bs = foldl (\<lambda>acc b. acc * 256 + unat b) 0 bs"

section \<open>The Get-Request frame\<close>

text \<open>
  \<open>Buffer.from(text, "hex")\<close> of the \<open>buffer\<close> package takes the text two
  characters at a time and gives each pair to \<open>parseInt(pair, 16)\<close>; it stops at the
  first pair whose value is \<open>NaN\<close>, stores every other value as a byte (modulo 256), and
  drops a trailing single character. On a pair, \<open>parseInt\<close> skips a leading white-space
  character, accepts a sign, strips the prefix \<open>0x\<close>, and reads the hex digits that
  follow up to the first character that is none; no digit at all is \<open>NaN\<close>.
  Characters are code units below 256.
\<close>

definition hexDigit :: "char \<Rightarrow> nat option" where
  "hexDigit c =
     (let n = (of_char c :: nat) in
      if 48 \<le> n \<and> n \<le> 57 then Some (n - 48)
      else if 97 \<le> n \<and> n \<le> 102 then Some (n - 87)
      else if 65 \<le> n \<and> n \<le> 70 then Some (n - 55)
      else None)"

definition isStrWhiteSpace :: "char \<Rightarrow> bool" where
  "isStrWhiteSpace c =
     (let n = (of_char c :: nat) in (9 \<le> n \<and> n \<le> 13) \<or> n = 32 \<or> n = 160)"

definition parseInt16_pair :: "char \<Rightarrow> char \<Rightarrow> int option" where
  "parseInt16_pair c1 c2 =
     (if isStrWhiteSpace c1 \<or> c1 = CHR ''+'' then map_option int (hexDigit c2)
      else if c1 = CHR ''-'' then map_option (\<lambda>l. - int l) (hexDigit c2)
      else if c1 = CHR ''0'' \<and> (c2 = CHR ''x'' \<or> c2 = CHR ''X'') then None
      else (case hexDigit c1 of
              None \<Rightarrow> None
            | Some h \<Rightarrow>
                (case hexDigit c2 of
                   None \<Rightarrow> Some (int h)
                 | Some l \<Rightarrow> Some (int (h * 16 + l)))))"

fun Buffer_from_hex :: "string \<Rightarrow> buffer" where
  "Buffer_from_hex (c1 # c2 # cs) =
     (case parseInt16_pair c1 c2 of
        None \<Rightarrow> []
      | Some parsed \<Rightarrow> word_of_int parsed # Buffer_from_hex cs)"
| "Buffer_from_hex cs = []"

text \<open>
  The request is built in \<open>fetchDeviceInformation\<close> (the variant that sends it) from a
  template string: the text \<open>C001\<close> followed by the OBIS code, a constant of the
  function, itself written as hex text.
\<close>

definition obisCode :: string where
  "obisCode = ''000b600603ff''"

definition dlmsRequest :: string where
  "dlmsRequest = ''C001'' @ obisCode"

definition dlmsRequestFrame :: buffer where
  "dlmsRequestFrame = Buffer_from_hex dlmsRequest"

section \<open>The screen's state and the transport\<close>

text \<open>
  A \<open>Device\<close> of the BLE library, as far as the screen uses it: its id and its
  name, which may be \<open>null\<close>.
\<close>

record device =
  dev_id :: string
  dev_name :: "string option"

text \<open>
  \<open>deviceData\<close> has type \<open>any\<close>: an object built field by field. It is a list of
  named values here, in the order in which the fields were first set. \<open>JNumber\<close> is
  the result of \<open>parseInt\<close>, an integer or \<open>NaN\<close>; \<open>JReal\<close> is a quotient.
\<close>

datatype js_value = JNumber "int option" | JString string | JReal real | JNull

type_synonym device_data = "(string \<times> js_value) list"

text \<open>\<open>{...obj, key: v}\<close>: a field that is there keeps its place, a new one goes last.\<close>

fun setField :: "string \<Rightarrow> js_value \<Rightarrow> device_data \<Rightarrow> device_data" where
  "setField k v [] = [(k, v)]"
| "setField k v (p # ps) = (if fst p = k then (k, v) # ps else p # setField k v ps)"

text \<open>The operations the screen asks of the transport, each with the id of its device.\<close>

datatype op =
    IsDeviceConnected string
  | Connect string
  | RequestMTU string nat
  | DiscoverAll string
  | ReadCharacteristic string string string
  | IsConnected string
  | CancelConnection string
  | StartDeviceScan
  | StopDeviceScan

text \<open>
  The four \<open>useState\<close> cells of \<open>BLEInterface\<close>, and, as a ghost field, the
  transport operations issued so far, in order.
\<close>

record app_state =
  isScanning :: bool
  devices :: "device list"
  connectedDevice :: "device option"
  deviceData :: "device_data option"
  calls :: "op list"

text \<open>
  The outside world: what the transport answers to each operation (\<open>Inl\<close> is a
  rejected promise), and the library functions the screen applies to the answers.
  Within one run of each function below, no operation is issued twice with the same
  arguments, so one answer per operation describes any run.
\<close>

record env =
  isDeviceConnected :: "string \<Rightarrow> js_error + bool"
  connect :: "device \<Rightarrow> js_error + device"
  requestMTU :: "device \<Rightarrow> nat \<Rightarrow> js_error + unit"
  discoverAllServicesAndCharacteristics :: "device \<Rightarrow> js_error + unit"
  readCharacteristicForService :: "device \<Rightarrow> string \<Rightarrow> string \<Rightarrow> js_error + string option"
  isConnected :: "device \<Rightarrow> js_error + bool"
  cancelConnection :: "device \<Rightarrow> js_error + unit"
  Buffer_from_base64 :: "string \<Rightarrow> buffer"
  toString_utf8 :: "buffer \<Rightarrow> string"
  parseInt :: "string \<Rightarrow> nat \<Rightarrow> int option"

text \<open>
  An asynchronous function body: it runs on the state and either throws or returns.
  \<open>call\<close> awaits one transport operation and records it; \<open>andThen\<close> is sequencing,
  where a throw skips the rest; \<open>tryCatch\<close> is \<open>try\<close>/\<open>catch\<close>.
\<close>

type_synonym 'a io = "app_state \<Rightarrow> (js_error + 'a) \<times> app_state"

definition call :: "op \<Rightarrow> js_error + 'a \<Rightarrow> 'a io" where
  "call c r s = (r, s\<lparr>calls := calls s @ [c]\<rparr>)"

definition ret :: "'a \<Rightarrow> 'a io" where
  "ret x s = (Inr x, s)"

definition throw :: "js_error \<Rightarrow> 'a io" where
  "throw e s = (Inl e, s)"

definition setState :: "(app_state \<Rightarrow> app_state) \<Rightarrow> unit io" where
  "setState f s = (Inr (), f s)"

definition andThen :: "'a io \<Rightarrow> ('a \<Rightarrow> 'b io) \<Rightarrow> 'b io" where
  "andThen m f s = (case m s of (Inl e, s') \<Rightarrow> (Inl e, s') | (Inr x, s') \<Rightarrow> f x s')"

definition tryCatch :: "'a io \<Rightarrow> (js_error \<Rightarrow> 'a io) \<Rightarrow> 'a io" where
  "tryCatch m h s = (case m s of (Inl e, s') \<Rightarrow> h e s' | (Inr x, s') \<Rightarrow> (Inr x, s'))"

text \<open>\<open>v || d\<close> on a string that may be \<open>null\<close>: \<open>null\<close> and the empty string give \<open>d\<close>.\<close>

definition orElse :: "string option \<Rightarrow> string \<Rightarrow> string" where
  "orElse v d = (case v of None \<Rightarrow> d | Some x \<Rightarrow> if x = [] then d else x)"

subsection \<open>Unsolicited disconnect\<close>


subsection \<open>Disconnect\<close>

text \<open>\<open>disconnectDevice\<close>, the same text in every variant; it never throws.\<close>

definition disconnectDevice :: "env \<Rightarrow> unit io" where
  "disconnectDevice e s =
     (case connectedDevice s of
        None \<Rightarrow> ret () s
      | Some d \<Rightarrow>
          tryCatch
            (andThen (call (IsConnected (dev_id d)) (isConnected e d)) (\<lambda>c.
             andThen (if c then call (CancelConnection (dev_id d)) (cancelConnection e d)
                      else ret ()) (\<lambda>_.
             setState (\<lambda>s. s\<lparr>connectedDevice := None, deviceData := None\<rparr>))))
            (\<lambda>error. ret ())
            s)"

subsection \<open>Connect\<close>

text \<open>
  \<open>connectToDevice\<close> of \<open>App.tsx\<close>. The \<open>connectedDevice\<close> of the \<open>catch\<close> block is
  the state cell: the constant of the same name is local to the \<open>try\<close> block.
\<close>

definition connectToDevice :: "env \<Rightarrow> device \<Rightarrow> unit io" where
  "connectToDevice e dev =
     tryCatch
       (andThen (call (Connect (dev_id dev)) (connect e dev)) (\<lambda>cd.
        andThen (call (RequestMTU (dev_id cd) 250) (requestMTU e cd 250)) (\<lambda>_.
        andThen (call (DiscoverAll (dev_id cd)) (discoverAllServicesAndCharacteristics e cd)) (\<lambda>_.
        setState (\<lambda>s. s\<lparr>connectedDevice := Some cd\<rparr>)))))
       (\<lambda>error s. if connectedDevice s \<noteq> None then disconnectDevice e s else ret () s)"

text \<open>\<open>connectToDevice\<close> of \<open>ble.tsx\<close>.\<close>

definition connectToDevice_ble :: "env \<Rightarrow> device \<Rightarrow> unit io" where
  "connectToDevice_ble e dev =
     tryCatch
       (andThen (\<lambda>s. if connectedDevice s \<noteq> None then disconnectDevice e s else ret () s) (\<lambda>_.
        andThen (call (IsDeviceConnected (dev_id dev)) (isDeviceConnected e (dev_id dev))) (\<lambda>connected.
        if connected then setState (\<lambda>s. s\<lparr>connectedDevice := Some dev\<rparr>)
        else
          andThen (call (Connect (dev_id dev)) (connect e dev)) (\<lambda>nd.
          andThen (setState (\<lambda>s. s\<lparr>connectedDevice := Some nd\<rparr>)) (\<lambda>_.
          andThen (call (RequestMTU (dev_id nd) 250) (requestMTU e nd 250)) (\<lambda>_.
          andThen (call (DiscoverAll (dev_id nd)) (discoverAllServicesAndCharacteristics e nd)) (\<lambda>_.
          andThen (call (ReadCharacteristic (dev_id nd) ''180F'' ''2A19'')
                        (readCharacteristicForService e nd ''180F'' ''2A19'')) (\<lambda>battery.
          andThen (call (ReadCharacteristic (dev_id nd)
                           ''005a02fe-bea5-46a0-c000-73c0d9b578fc''
                           ''005a02fe-bea5-46a0-c101-73c0d9b578fc'')
                        (readCharacteristicForService e nd
                           ''005a02fe-bea5-46a0-c000-73c0d9b578fc''
                           ''005a02fe-bea5-46a0-c101-73c0d9b578fc'')) (\<lambda>valve.
          setState (\<lambda>s. s\<lparr>deviceData :=
            Some [(''batteryLevel'', JNumber (parseInt e (orElse battery ''0'') 16)),
                  (''valveStatus'', JString (orElse valve ''Unknown''))]\<rparr>))))))))))
       (\<lambda>error. ret ())"

subsection \<open>Writes that follow an await or a notification\<close>

text \<open>
  The last statement of \<open>connectToDevice\<close> of \<open>ble.tsx\<close>, the \<open>setDeviceData\<close> that
  runs when the awaited second read has resolved. Between the await and this statement
  other listeners may run.
\<close>

definition storeReadings_ble :: "env \<Rightarrow> string option \<Rightarrow> string option \<Rightarrow> app_state \<Rightarrow> app_state" where
  "storeReadings_ble e battery valve s =
     s\<lparr>deviceData :=
         Some [(''batteryLevel'', JNumber (parseInt e (orElse battery ''0'') 16)),
               (''valveStatus'', JString (orElse valve ''Unknown''))]\<rparr>"

text \<open>
  The listener that \<open>fetchDeviceInformation\<close> of \<open>App.tsx\<close> (the variant that sends the
  request) registers for notifications of the control point. It receives an error or a
  characteristic, of which it uses the value; \<open>Buffer.from\<close> throws on \<open>null\<close>. The
  parser it calls is the one of its own variant. Nothing removes the listener: the
  function returns a clean-up closure, which its caller, a button handler, drops.
\<close>

definition onBatteryVoltage :: "env \<Rightarrow> js_error option \<Rightarrow> string option \<Rightarrow> unit io" where
  "onBatteryVoltage e error characteristicValue =
     (case error of
        Some err \<Rightarrow> ret ()
      | None \<Rightarrow>
          (case characteristicValue of
             None \<Rightarrow> throw TypeError
           | Some text \<Rightarrow>
               (let decodedValue = Buffer_from_base64 e text;
                    batteryVoltage =
                      (case parseBatteryVoltage_v1 decodedValue of
                         None \<Rightarrow> JNull
                       | Some x \<Rightarrow> JReal x)
                in setState (\<lambda>prev. prev\<lparr>deviceData :=
                     Some (setField ''batteryVoltage'' batteryVoltage
                            (case deviceData prev of None \<Rightarrow> [] | Some prevData \<Rightarrow> prevData))\<rparr>))))"

subsection \<open>Reading the device information\<close>

text \<open>
  \<open>fetchDeviceInformation\<close> of the latest variant in \<open>App.tsx\<close>: a connection check
  with one reconnect, then six reads in sequence, then the decoding of the six values,
  all in one \<open>try\<close> block. The sixth read asks for characteristic \<open>180F\<close> of the
  device-information service, as the source does. The block ends by logging the six
  decoded constants; \<open>fetchDeviceInformation_try\<close> returns them. The function itself
  returns nothing and stores nothing: its \<open>catch\<close> logs the error.
\<close>

record device_info =
  deviceName :: string
  appearance :: nat
  serialNumber :: string
  firmwareVersion :: string
  hardwareRevisionString :: string
  manufacturer :: string

definition services_GAP :: string where
  "services_GAP = ''1800''"

definition services_DEVICE_INFO :: string where
  "services_DEVICE_INFO = ''180A''"

definition characteristics_deviceName :: string where
  "characteristics_deviceName = ''2A00''"

definition characteristics_appearance :: string where
  "characteristics_appearance = ''2A01''"

definition characteristics_serialNumber :: string where
  "characteristics_serialNumber = ''2A25''"

definition characteristics_firmwareVersion :: string where
  "characteristics_firmwareVersion = ''2A26''"

definition characteristics_hardwareRevisionString :: string where
  "characteristics_hardwareRevisionString = ''2A27''"

definition characteristics_manufacturerNameString :: string where
  "characteristics_manufacturerNameString = ''2A29''"

definition readChar :: "env \<Rightarrow> device \<Rightarrow> string \<Rightarrow> string \<Rightarrow> (string option) io" where
  "readChar e dev service characteristic =
     call (ReadCharacteristic (dev_id dev) service characteristic)
          (readCharacteristicForService e dev service characteristic)"

definition fetchDeviceInformation_try :: "env \<Rightarrow> device \<Rightarrow> device_info io" where
  "fetchDeviceInformation_try e dev =
     andThen (call (IsConnected (dev_id dev)) (isConnected e dev)) (\<lambda>isConn.
     andThen (if \<not> isConn
              then andThen (call (Connect (dev_id dev)) (connect e dev)) (\<lambda>_.
                   call (DiscoverAll (dev_id dev)) (discoverAllServicesAndCharacteristics e dev))
              else ret ()) (\<lambda>_.
     andThen (readChar e dev services_GAP characteristics_deviceName) (\<lambda>deviceNameChar.
     andThen (readChar e dev services_GAP characteristics_appearance) (\<lambda>appearanceChar.
     andThen (readChar e dev services_DEVICE_INFO characteristics_serialNumber) (\<lambda>serialNumberChar.
     andThen (readChar e dev services_DEVICE_INFO characteristics_firmwareVersion) (\<lambda>firmwareVersionChar.
     andThen (readChar e dev services_DEVICE_INFO characteristics_hardwareRevisionString)
       (\<lambda>hardwareRevisionStringChar.
     andThen (readChar e dev services_DEVICE_INFO ''180F'') (\<lambda>manufacturerNameStringChar.
     andThen (\<lambda>s. (readUInt16LE (Buffer_from_base64 e (orElse appearanceChar [])) 0, s))
       (\<lambda>appearanceValue.
     ret \<lparr>deviceName = toString_utf8 e (Buffer_from_base64 e (orElse deviceNameChar [])),
          appearance = appearanceValue,
          serialNumber = toString_utf8 e (Buffer_from_base64 e (orElse serialNumberChar [])),
          firmwareVersion = toString_utf8 e (Buffer_from_base64 e (orElse firmwareVersionChar [])),
          hardwareRevisionString =
            toString_utf8 e (Buffer_from_base64 e (orElse hardwareRevisionStringChar [])),
          manufacturer =
            toString_utf8 e (Buffer_from_base64 e (orElse manufacturerNameStringChar []))\<rparr>)))))))))"

definition fetchDeviceInformation :: "env \<Rightarrow> device \<Rightarrow> unit io" where
  "fetchDeviceInformation e dev =
     tryCatch (andThen (fetchDeviceInformation_try e dev) (\<lambda>info. ret ())) (\<lambda>error. ret ())"

text \<open>The six reads of the block, as (service, characteristic) pairs, in order.\<close>

definition standardReads :: "(string \<times> string) list" where
  "standardReads =
     [(services_GAP, characteristics_deviceName),
      (services_GAP, characteristics_appearance),
      (services_DEVICE_INFO, characteristics_serialNumber),
      (services_DEVICE_INFO, characteristics_firmwareVersion),
      (services_DEVICE_INFO, characteristics_hardwareRevisionString),
      (services_DEVICE_INFO, ''180F'')]"

section \<open>The scan\<close>

text \<open>
  The scan listener receives an error or a device. \<open>device && device.name\<close> holds
  for a device whose name is neither \<open>null\<close> nor empty.
\<close>

type_synonym scan_event = "js_error option \<times> device option"

definition hasName :: "device \<Rightarrow> bool" where
  "hasName d = (case dev_name d of None \<Rightarrow> False | Some n \<Rightarrow> n \<noteq> [])"

definition stopScan :: "app_state \<Rightarrow> app_state" where
  "stopScan s = s\<lparr>isScanning := False, calls := calls s @ [StopDeviceScan]\<rparr>"

text \<open>
  The listener of \<open>App.tsx\<close>: the set \<open>discoveredDeviceIds\<close> is local to one call of
  \<open>startScan\<close> and lives beside the state.
\<close>

definition scanListener :: "string set \<times> app_state \<Rightarrow> scan_event \<Rightarrow> string set \<times> app_state" where
  "scanListener c ev =
     (case c of (discoveredDeviceIds, s) \<Rightarrow>
      case ev of (error, dev) \<Rightarrow>
      (case error of
         Some err \<Rightarrow> (discoveredDeviceIds, stopScan s)
       | None \<Rightarrow>
           (case dev of
              None \<Rightarrow> (discoveredDeviceIds, s)
            | Some d \<Rightarrow>
                if hasName d \<and> dev_id d \<notin> discoveredDeviceIds
                then (insert (dev_id d) discoveredDeviceIds, s\<lparr>devices := devices s @ [d]\<rparr>)
                else (discoveredDeviceIds, s))))"

text \<open>The listener of \<open>ble.tsx\<close>: it looks the id up in the list itself.\<close>

definition scanListener_ble :: "app_state \<Rightarrow> scan_event \<Rightarrow> app_state" where
  "scanListener_ble s ev =
     (case ev of (error, dev) \<Rightarrow>
      (case error of
         Some err \<Rightarrow> stopScan s
       | None \<Rightarrow>
           (case dev of
              None \<Rightarrow> s
            | Some d \<Rightarrow>
                if hasName d
                then (if find (\<lambda>x. dev_id x = dev_id d) (devices s) = None
                      then s\<lparr>devices := devices s @ [d]\<rparr>
                      else s)
                else s)))"

text \<open>
  \<open>startScan\<close> does nothing while a scan is active; otherwise it empties the list and
  registers the listener, which then receives the events of the scan one by one. The
  listener itself does not look at \<open>isScanning\<close>: an event delivered after an error
  is handled like any other. The timer that stops the scan after 20 seconds is left out.
\<close>

definition startScan :: "app_state \<Rightarrow> app_state" where
  "startScan s =
     (if isScanning s then s
      else s\<lparr>isScanning := True, devices := [], calls := calls s @ [StartDeviceScan]\<rparr>)"

definition scan :: "scan_event list \<Rightarrow> app_state \<Rightarrow> app_state" where
  "scan events s =
     (if isScanning s then s else snd (foldl scanListener ({}, startScan s) events))"

definition scan_ble :: "scan_event list \<Rightarrow> app_state \<Rightarrow> app_state" where
  "scan_ble events s =
     (if isScanning s then s else foldl scanListener_ble (startScan s) events)"

text \<open>The devices of the events that carry no error and a device with a name, in order.\<close>

definition namedDevices :: "scan_event list \<Rightarrow> device list" where
  "namedDevices events =
     concat (map (\<lambda>ev. case ev of
                         (None, Some d) \<Rightarrow> if hasName d then [d] else []
                       | _ \<Rightarrow> []) events)"

section \<open>Session phases\<close>

text \<open>
  The screen keeps no phase variable. It shows the connected view exactly when
  \<open>connectedDevice\<close> is set, and the scan view otherwise; these are the phases
  \<open>Ready\<close> and \<open>Idle\<close>.
\<close>

datatype phase = Idle | Ready

definition phaseOf :: "app_state \<Rightarrow> phase" where
  "phaseOf s = (if connectedDevice s = None then Idle else Ready)"

section \<open>Auxiliary notions\<close>

text \<open>The operations issued between an earlier state and a later one.\<close>

definition newCalls :: "app_state \<Rightarrow> app_state \<Rightarrow> op list" where
  "newCalls s s' = drop (length (calls s)) (calls s')"

definition isTeardown :: "op \<Rightarrow> bool" where
  "isTeardown c = (case c of IsConnected _ \<Rightarrow> True | CancelConnection _ \<Rightarrow> True | _ \<Rightarrow> False)"

definition isDiscoverRead :: "op \<Rightarrow> bool" where
  "isDiscoverRead c =
     (case c of DiscoverAll _ \<Rightarrow> True | ReadCharacteristic _ _ _ \<Rightarrow> True | _ \<Rightarrow> False)"

definition isMtuDiscoverRead :: "op \<Rightarrow> bool" where
  "isMtuDiscoverRead c =
     (case c of RequestMTU _ _ \<Rightarrow> True | DiscoverAll _ \<Rightarrow> True
      | ReadCharacteristic _ _ _ \<Rightarrow> True | _ \<Rightarrow> False)"

text \<open>
  What a list of named devices adds to a list whose ids are \<open>ids\<close>: each device whose
  id is new, once, at its first occurrence.
\<close>

fun appendNew :: "string set \<Rightarrow> device list \<Rightarrow> device list" where
  "appendNew ids [] = []"
| "appendNew ids (d # ds) =
     (if dev_id d \<in> ids then appendNew ids ds else d # appendNew (insert (dev_id d) ids) ds)"

subsection \<open>Concrete inputs\<close>

definition meterA :: device where
  "meterA = \<lparr>dev_id = ''A'', dev_name = Some ''meter''\<rparr>"

definition meterA_again :: device where
  "meterA_again = \<lparr>dev_id = ''A'', dev_name = Some ''meter (2)''\<rparr>"

definition emptyNameB :: device where
  "emptyNameB = \<lparr>dev_id = ''B'', dev_name = Some []\<rparr>"

definition noNameC :: device where
  "noNameC = \<lparr>dev_id = ''C'', dev_name = None\<rparr>"

definition valveD :: device where
  "valveD = \<lparr>dev_id = ''D'', dev_name = Some ''valve''\<rparr>"

definition someEvents :: "scan_event list" where
  "someEvents =
     [(None, Some noNameC), (None, Some meterA), (None, Some emptyNameB), (None, Some valveD),
      (None, Some meterA_again), (None, None), (None, Some meterA)]"

definition initialState :: app_state where
  "initialState =
     \<lparr>isScanning = False, devices = [], connectedDevice = None, deviceData = None, calls = []\<rparr>"

definition readyState :: app_state where
  "readyState =
     initialState\<lparr>connectedDevice := Some meterA,
                  deviceData := Some [(''serialNumber'', JString ''SN1'')]\<rparr>"

text \<open>
  The base64 decoder on the texts used below (\<open>TTE=\<close> is \<open>M1\<close>, \<open>AAAAC7g=\<close> is
  00 00 00 0B B8, the empty text is empty), and bytes read as ASCII text.
\<close>

definition exampleBase64 :: "string \<Rightarrow> buffer" where
  "exampleBase64 text =
     (if text = ''TTE='' then [0x4D, 0x31]
      else if text = ''AAAAC7g='' then [0x00, 0x00, 0x00, 0x0B, 0xB8]
      else [])"

definition asciiText :: "buffer \<Rightarrow> string" where
  "asciiText bs = map (\<lambda>b. char_of (unat b)) bs"

text \<open>
  A transport on which every operation succeeds, no device is connected yet, and every
  characteristic has the value \<open>null\<close>.
\<close>

definition quietEnv :: env where
  "quietEnv =
     \<lparr>isDeviceConnected = (\<lambda>_. Inr False),
      connect = (\<lambda>d. Inr d),
      requestMTU = (\<lambda>_ _. Inr ()),
      discoverAllServicesAndCharacteristics = (\<lambda>_. Inr ()),
      readCharacteristicForService = (\<lambda>_ _ _. Inr None),
      isConnected = (\<lambda>_. Inr True),
      cancelConnection = (\<lambda>_. Inr ()),
      Buffer_from_base64 = exampleBase64,
      toString_utf8 = asciiText,
      parseInt = (\<lambda>_ _. None)\<rparr>"

text \<open>Every read returns the two bytes \<open>M1\<close>.\<close>

definition readableEnv :: env where
  "readableEnv = quietEnv\<lparr>readCharacteristicForService := (\<lambda>_ _ _. Inr (Some ''TTE=''))\<rparr>"

definition cancelFailsEnv :: env where
  "cancelFailsEnv = quietEnv\<lparr>cancelConnection := (\<lambda>_. Inl (Error ''cancel failed''))\<rparr>"

definition notConnectedEnv :: env where
  "notConnectedEnv = quietEnv\<lparr>isConnected := (\<lambda>_. Inr False)\<rparr>"

definition mtuFailsEnv :: env where
  "mtuFailsEnv = quietEnv\<lparr>requestMTU := (\<lambda>_ _. Inl (Error ''mtu failed''))\<rparr>"

definition alreadyConnectedEnv :: env where
  "alreadyConnectedEnv = quietEnv\<lparr>isDeviceConnected := (\<lambda>_. Inr True)\<rparr>"

text \<open>Three of the six reads succeed, the other three fail.\<close>

definition halfEnv :: env where
  "halfEnv =
     quietEnv\<lparr>readCharacteristicForService :=
       (\<lambda>d service characteristic.
          if characteristic = ''2A00'' \<or> characteristic = ''2A01'' \<or> characteristic = ''2A25''
          then Inr (Some ''TTE='') else Inl (Error ''read failed''))\<rparr>"

section \<open>Properties of the parsers\<close>

lemma take_drop_2: "n + 2 \<le> length xs \<Longrightarrow> take 2 (drop n xs) = [xs ! n, xs ! (n + 1)]"
  by (simp add: list_eq_iff_nth_eq nth_Cons' less_Suc_eq numeral_2_eq_2)

lemma take_drop_4:
  "n + 4 \<le> length xs \<Longrightarrow>
   take 4 (drop n xs) = [xs ! n, xs ! (n + 1), xs ! (n + 2), xs ! (n + 3)]"
proof -
  assume len: "n + 4 \<le> length xs"
  have "take 4 (drop n xs) = take 2 (drop n xs) @ take 2 (drop (n + 2) xs)"
    using take_add [of 2 2 "drop n xs"] by (simp add: add.commute)
  also have "\<dots> = [xs ! n, xs ! (n + 1)] @ [xs ! (n + 2), xs ! (n + 2 + 1)]"
    using len by (simp only: take_drop_2)
  finally show ?thesis by (simp add: eval_nat_numeral)
qed

lemma readUInt16BE_be_nat:
  "offset + 2 \<le> length buf \<Longrightarrow> readUInt16BE buf offset = Inr (be_nat (take 2 (drop offset buf)))"
  by (simp add: readUInt16BE_def checkOffset_def be_nat_def take_drop_2)

lemma readUInt32BE_be_nat:
  "offset + 4 \<le> length buf \<Longrightarrow> readUInt32BE buf offset = Inr (be_nat (take 4 (drop offset buf)))"
  by (simp add: readUInt32BE_def checkOffset_def be_nat_def take_drop_4)

lemma unat_byte_less: "unat (b :: byte) < 256"
  using unsigned_less [of b, where ?'a = nat] by simp

text \<open>
  The parser of the latest variant: a frame of at least 5 bytes gives the big-endian
  16-bit unsigned integer at byte offset 3, divided by 1000; a frame whose bytes at
  offsets 3 and 4 are 0x0B and 0xB8 gives 3, whatever its other bytes are.
\<close>

lemma parseBatteryVoltage_reads_be16:
  "(5 \<le> length frame \<longrightarrow>
      parseBatteryVoltage frame = Some (real (be_nat (take 2 (drop 3 frame))) / 1000))
   \<and> parseBatteryVoltage (b0 # b1 # b2 # 0x0B # 0xB8 # rest) = Some 3"
  by (simp add: parseBatteryVoltage_def readUInt16BE_be_nat) (simp add: be_nat_def)

text \<open>
  The parser of the earlier variant, the one its notification listener calls: a frame
  of at least 4 bytes gives the big-endian 32-bit unsigned integer at byte offset 0,
  divided by 1000, so the bytes at offsets 3 and 4 do not decide the result.
\<close>

lemma parseBatteryVoltage_v1_reads_be32:
  "4 \<le> length frame \<Longrightarrow>
   parseBatteryVoltage_v1 frame = Some (real (be_nat (take 4 frame)) / 1000)"
  using readUInt32BE_be_nat [of 0 frame] by (simp add: parseBatteryVoltage_v1_def)

text \<open>
  Claim C1. A response frame of at least 5 bytes, decoded as a voltage, should give
  the big-endian 16-bit unsigned integer at byte offset 3 divided by 1000, so 3 volts
  for the bytes 0x0B 0xB8 there. On the frame 00 00 00 0B B8 the parser of the latest
  variant gives 3; the parser that the notification listener calls gives 0.011, and
  the listener stores that value.
\<close>

theorem parseBatteryVoltage_v1_misreads_frame:
  "length [0x00, 0x00, 0x00, 0x0B, 0xB8 :: byte] = 5
   \<and> be_nat (take 2 (drop 3 [0x00, 0x00, 0x00, 0x0B, 0xB8])) = 3000
   \<and> parseBatteryVoltage [0x00, 0x00, 0x00, 0x0B, 0xB8] = Some 3
   \<and> parseBatteryVoltage_v1 [0x00, 0x00, 0x00, 0x0B, 0xB8] = Some (11 / 1000)
   \<and> deviceData (snd (onBatteryVoltage quietEnv None (Some ''AAAAC7g='') initialState))
       = Some [(''batteryVoltage'', JReal (11 / 1000))]"
  by (simp add: parseBatteryVoltage_def readUInt16BE_def parseBatteryVoltage_v1_def
      readUInt32BE_def checkOffset_def be_nat_def onBatteryVoltage_def setState_def
      quietEnv_def exampleBase64_def initialState_def)

text \<open>
  Claim C3. A response frame of at least 7 bytes, parsed as a meter reading, gives the
  big-endian 32-bit unsigned integer at byte offset 3, unscaled; a frame whose bytes at
  offsets 3 to 6 are 0x00, 0x00, 0x01, 0x00 gives 256.
\<close>

theorem parseMeterReading_reads_be32:
  "(7 \<le> length frame \<longrightarrow>
      parseMeterReading frame = Some (be_nat (take 4 (drop 3 frame))))
   \<and> parseMeterReading (b0 # b1 # b2 # 0x00 # 0x00 # 0x01 # 0x00 # rest) = Some 256"
  by (simp add: parseMeterReading_def readUInt32BE_be_nat) (simp add: be_nat_def)

theorem parseMeterReading_reads_be32_witness:
  "7 \<le> length [0x0C, 0x00, 0x06, 0x00, 0x00, 0x01, 0x00 :: byte]
   \<and> parseMeterReading [0x0C, 0x00, 0x06, 0x00, 0x00, 0x01, 0x00]
       = Some (be_nat [0x00, 0x00, 0x01, 0x00])
   \<and> be_nat [0x00, 0x00, 0x01, 0x00] = 256"
  using parseMeterReading_reads_be32 [of "[0x0C, 0x00, 0x06, 0x00, 0x00, 0x01, 0x00]"]
  by (simp add: be_nat_def)

text \<open>
  Claim C7. A frame shorter than 3 + 2 bytes parsed as a voltage, or shorter than 3 + 4
  bytes parsed as a meter reading, is refused: the bounds check of the read throws
  before any byte is indexed, and the parser returns \<open>null\<close>, its failure value.
  A read that does return a value has checked that all its bytes lie inside the frame.
\<close>

theorem short_frame_returns_null:
  "(length frame < 3 + 2 \<longrightarrow>
      readUInt16BE frame 3 = Inl RangeError \<and> parseBatteryVoltage frame = None)
   \<and> (length frame < 3 + 4 \<longrightarrow>
      readUInt32BE frame 3 = Inl RangeError \<and> parseMeterReading frame = None)
   \<and> (\<forall>v. readUInt16BE frame offset = Inr v \<longrightarrow> offset + 2 \<le> length frame)
   \<and> (\<forall>v. readUInt32BE frame offset = Inr v \<longrightarrow> offset + 4 \<le> length frame)"
  by (auto simp add: parseBatteryVoltage_def parseMeterReading_def readUInt16BE_def
      readUInt32BE_def checkOffset_def split: if_splits)

theorem short_frame_returns_null_witness:
  "length [1, 2, 3, 4 :: byte] < 3 + 2
   \<and> readUInt16BE [1, 2, 3, 4] 3 = Inl RangeError
   \<and> parseBatteryVoltage [1, 2, 3, 4] = None
   \<and> length [1, 2, 3, 4 :: byte] < 3 + 4
   \<and> readUInt32BE [1, 2, 3, 4] 3 = Inl RangeError
   \<and> parseMeterReading [1, 2, 3, 4] = None
   \<and> readUInt16BE [1, 2, 3, 4] 2 = Inr 772 \<and> 2 + 2 \<le> length [1, 2, 3, 4 :: byte]
   \<and> readUInt32BE [1, 2, 3, 4] 0 = Inr 16909060 \<and> 0 + 4 \<le> length [1, 2, 3, 4 :: byte]"
  using short_frame_returns_null [of "[1, 2, 3, 4]" 2]
    short_frame_returns_null [of "[1, 2, 3, 4]" 0]
  by (simp add: readUInt16BE_def readUInt32BE_def checkOffset_def)

section \<open>Properties of the Get-Request frame\<close>

text \<open>
  The one request the screen sends: eight bytes, the prefix 0xC0 0x01 and then the six
  bytes that the OBIS text denotes.
\<close>

lemma Buffer_from_hex_obisCode: "Buffer_from_hex obisCode = [0x00, 0x0b, 0x60, 0x06, 0x03, 0xff]"
  by (simp add: obisCode_def parseInt16_pair_def hexDigit_def isStrWhiteSpace_def)

lemma dlmsRequestFrame_obisCode:
  "dlmsRequestFrame = [0xC0, 0x01] @ Buffer_from_hex obisCode
   \<and> length dlmsRequestFrame = 8
   \<and> length (Buffer_from_hex obisCode) = 6"
  by (simp add: dlmsRequestFrame_def dlmsRequest_def obisCode_def parseInt16_pair_def
      hexDigit_def isStrWhiteSpace_def)

text \<open>On text that is not hex digits the decoder follows \<open>parseInt\<close>.\<close>

lemma Buffer_from_hex_malformed:
  "Buffer_from_hex ''1g'' = [0x01] \<and> Buffer_from_hex ''-1'' = [0xFF]
   \<and> Buffer_from_hex ''0x12'' = [] \<and> Buffer_from_hex ''12zz34'' = [0x12]"
  by (simp add: parseInt16_pair_def hexDigit_def isStrWhiteSpace_def)

section \<open>Properties of the scan\<close>

lemma namedDevices_Cons: "namedDevices (ev # evs) = namedDevices [ev] @ namedDevices evs"
  by (simp add: namedDevices_def)

lemma scanListener_step:
  "scanListener (ids, s) ev = (ids', s') \<Longrightarrow>
   devices s' @ appendNew ids' rest = devices s @ appendNew ids (namedDevices [ev] @ rest)"
  by (auto simp add: scanListener_def namedDevices_def stopScan_def
      split: prod.splits option.splits if_splits)

lemma foldl_scanListener:
  "devices (snd (foldl scanListener (ids, s) evs)) = devices s @ appendNew ids (namedDevices evs)"
proof (induction evs arbitrary: ids s)
  case Nil
  show ?case by (simp add: namedDevices_def)
next
  case (Cons ev evs)
  obtain ids' s' where step: "scanListener (ids, s) ev = (ids', s')"
    by (cases "scanListener (ids, s) ev")
  have "devices (snd (foldl scanListener (ids, s) (ev # evs)))
        = devices s' @ appendNew ids' (namedDevices evs)"
    using Cons.IH [of ids' s'] step by simp
  also have "\<dots> = devices s @ appendNew ids (namedDevices [ev] @ namedDevices evs)"
    by (rule scanListener_step [OF step])
  finally show ?case by (simp add: namedDevices_Cons [of ev evs])
qed

lemma scanListener_ble_step:
  "devices (scanListener_ble s ev) @ appendNew (dev_id ` set (devices (scanListener_ble s ev))) rest
   = devices s @ appendNew (dev_id ` set (devices s)) (namedDevices [ev] @ rest)"
  by (auto simp add: scanListener_ble_def namedDevices_def stopScan_def find_None_iff image_iff
      split: prod.splits option.splits if_splits)

lemma foldl_scanListener_ble:
  "devices (foldl scanListener_ble s evs)
   = devices s @ appendNew (dev_id ` set (devices s)) (namedDevices evs)"
proof (induction evs arbitrary: s)
  case Nil
  show ?case by (simp add: namedDevices_def)
next
  case (Cons ev evs)
  have "devices (foldl scanListener_ble s (ev # evs))
        = devices (scanListener_ble s ev)
          @ appendNew (dev_id ` set (devices (scanListener_ble s ev))) (namedDevices evs)"
    using Cons.IH [of "scanListener_ble s ev"] by simp
  also have "\<dots> = devices s
                  @ appendNew (dev_id ` set (devices s)) (namedDevices [ev] @ namedDevices evs)"
    by (rule scanListener_ble_step)
  finally show ?case by (simp add: namedDevices_Cons [of ev evs])
qed

lemma devices_scan:
  "\<not> isScanning s \<Longrightarrow> devices (scan events s) = appendNew {} (namedDevices events)"
  by (simp add: scan_def foldl_scanListener startScan_def)

lemma devices_scan_ble:
  "\<not> isScanning s \<Longrightarrow> devices (scan_ble events s) = appendNew {} (namedDevices events)"
  by (simp add: scan_ble_def foldl_scanListener_ble startScan_def)

lemma set_appendNew: "dev_id ` set (appendNew ids ds) = dev_id ` set ds - ids"
  by (induction ds arbitrary: ids) auto

lemma set_appendNew_subset: "set (appendNew ids ds) \<subseteq> set ds"
  by (induction ds arbitrary: ids) auto

lemma distinct_appendNew: "distinct (map dev_id (appendNew ids ds))"
proof (induction ds arbitrary: ids)
  case Nil
  show ?case by simp
next
  case (Cons d ds)
  have "dev_id d \<notin> dev_id ` set (appendNew (insert (dev_id d) ids) ds)"
    by (simp add: set_appendNew)
  then show ?case using Cons.IH by simp
qed

lemma subseq_appendNew: "subseq (appendNew ids ds) ds"
  by (induction ds arbitrary: ids) auto

lemma find_appendNew:
  "d \<in> set (appendNew ids ds) \<Longrightarrow> find (\<lambda>x. dev_id x = dev_id d) ds = Some d"
proof (induction ds arbitrary: ids)
  case Nil
  then show ?case by simp
next
  case (Cons x ds)
  show ?case
  proof (cases "d = x")
    case True
    then show ?thesis by simp
  next
    case False
    have "dev_id d \<in> dev_id ` set (appendNew ids (x # ds))"
      using Cons.prems by blast
    then have notin: "dev_id d \<notin> ids"
      using set_appendNew [of ids "x # ds"] by blast
    show ?thesis
    proof (cases "dev_id x \<in> ids")
      case True
      then have "dev_id x \<noteq> dev_id d" using notin by auto
      moreover have "d \<in> set (appendNew ids ds)" using Cons.prems True by simp
      ultimately show ?thesis using Cons.IH by simp
    next
      case inew: False
      then have mem: "d \<in> set (appendNew (insert (dev_id x) ids) ds)"
        using Cons.prems False by simp
      then have "dev_id d \<in> dev_id ` set (appendNew (insert (dev_id x) ids) ds)" by blast
      then have "dev_id x \<noteq> dev_id d"
        using set_appendNew [of "insert (dev_id x) ids" ds] by auto
      then show ?thesis using Cons.IH [OF mem] by simp
    qed
  qed
qed

lemma remdups_snoc: "remdups (ys @ [x]) = filter (\<lambda>y. y \<noteq> x) (remdups ys) @ [x]"
  by (induction ys) auto

lemma first_occurrences_Cons:
  "rev (remdups (rev (x # xs))) = x # rev (remdups (rev (filter (\<lambda>y. y \<noteq> x) xs)))"
  by (simp add: remdups_snoc rev_filter remdups_filter)

lemma map_dev_id_appendNew:
  "map dev_id (appendNew ids ds)
   = rev (remdups (rev (filter (\<lambda>i. i \<notin> ids) (map dev_id ds))))"
proof (induction ds arbitrary: ids)
  case Nil
  show ?case by simp
next
  case (Cons d ds)
  show ?case
  proof (cases "dev_id d \<in> ids")
    case True
    then show ?thesis using Cons.IH [of ids] by simp
  next
    case False
    have "filter (\<lambda>y. y \<noteq> dev_id d) (filter (\<lambda>i. i \<notin> ids) (map dev_id ds))
          = filter (\<lambda>i. i \<notin> insert (dev_id d) ids) (map dev_id ds)"
      by (auto intro: filter_cong)
    then show ?thesis
      using False Cons.IH [of "insert (dev_id d) ids"]
      by (simp only: appendNew.simps list.map filter.simps first_occurrences_Cons if_False if_True
          simp_thms)
  qed
qed

lemma hasName_namedDevices: "d \<in> set (namedDevices events) \<Longrightarrow> hasName d"
  by (auto simp add: namedDevices_def split: option.splits if_splits)

text \<open>
  Claim C4. A scan started from a state that is not scanning ends, for every sequence
  of events, with the list of the named devices of the events in which each id is kept
  once, at its first occurrence: the ids of the list are the ids of the named devices
  in the order in which they were first seen, no id is there twice, the list is a
  subsequence of the events' devices, and each entry is the first named device seen
  with its id. A device without a name, or with an empty one, is never in the list.
  The listener of \<open>ble.tsx\<close> gives the same list.
\<close>

theorem scan_unique_first_seen:
  assumes "\<not> isScanning s"
  shows "distinct (map dev_id (devices (scan events s)))
    \<and> dev_id ` set (devices (scan events s)) = dev_id ` set (namedDevices events)
    \<and> subseq (devices (scan events s)) (namedDevices events)
    \<and> (\<forall>d \<in> set (devices (scan events s)).
          hasName d \<and> find (\<lambda>x. dev_id x = dev_id d) (namedDevices events) = Some d)
    \<and> devices (scan_ble events s) = devices (scan events s)
    \<and> map dev_id (devices (scan events s))
        = rev (remdups (rev (map dev_id (namedDevices events))))
    \<and> devices (scan events s) = appendNew {} (namedDevices events)"
proof -
  have eq: "devices (scan events s) = appendNew {} (namedDevices events)"
    using assms by (rule devices_scan)
  have sub: "subseq (appendNew {} (namedDevices events)) (namedDevices events)"
    by (rule subseq_appendNew)
  have named: "\<forall>d \<in> set (appendNew {} (namedDevices events)). hasName d"
    using set_appendNew_subset [of "{}" "namedDevices events"] hasName_namedDevices by blast
  have order: "map dev_id (appendNew {} (namedDevices events))
               = rev (remdups (rev (map dev_id (namedDevices events))))"
    using map_dev_id_appendNew [of "{}" "namedDevices events"] by simp
  have first: "\<forall>d \<in> set (appendNew {} (namedDevices events)).
      hasName d \<and> find (\<lambda>x. dev_id x = dev_id d) (namedDevices events) = Some d"
    using named find_appendNew by blast
  have ids: "dev_id ` set (appendNew {} (namedDevices events)) = dev_id ` set (namedDevices events)"
    by (simp add: set_appendNew)
  show ?thesis
    unfolding eq devices_scan_ble [OF assms]
    using distinct_appendNew [of "{}" "namedDevices events"] ids sub first order
    by (intro conjI) (assumption | rule refl)+
qed

lemmas example_defs = meterA_def meterA_again_def emptyNameB_def noNameC_def valveD_def
  someEvents_def initialState_def readyState_def

theorem scan_unique_first_seen_witness:
  "\<not> isScanning initialState
   \<and> namedDevices someEvents = [meterA, valveD, meterA_again, meterA]
   \<and> devices (scan someEvents initialState) = [meterA, valveD]
   \<and> devices (scan_ble someEvents initialState) = [meterA, valveD]
   \<and> distinct (map dev_id (devices (scan someEvents initialState)))
   \<and> subseq (devices (scan someEvents initialState)) (namedDevices someEvents)
   \<and> rev (remdups (rev (map dev_id (namedDevices someEvents)))) = [''A'', ''D'']"
proof -
  have n: "\<not> isScanning initialState" by (simp add: initialState_def)
  note all = scan_unique_first_seen [OF n, of someEvents]
  have nd: "namedDevices someEvents = [meterA, valveD, meterA_again, meterA]"
    by (simp add: namedDevices_def hasName_def example_defs)
  have "devices (scan someEvents initialState) = appendNew {} (namedDevices someEvents)"
    using all by blast
  then have sc: "devices (scan someEvents initialState) = [meterA, valveD]"
    by (simp add: nd) (simp add: example_defs)
  have "devices (scan_ble someEvents initialState) = devices (scan someEvents initialState)"
    using all by blast
  then have sb: "devices (scan_ble someEvents initialState) = [meterA, valveD]"
    by (simp only: sc)
  have di: "distinct (map dev_id (devices (scan someEvents initialState)))"
    using all by blast
  have su: "subseq (devices (scan someEvents initialState)) (namedDevices someEvents)"
    using all by blast
  have "map dev_id (devices (scan someEvents initialState))
        = rev (remdups (rev (map dev_id (namedDevices someEvents))))"
    using all by blast
  then have "rev (remdups (rev (map dev_id (namedDevices someEvents)))) = map dev_id [meterA, valveD]"
    by (simp only: sc)
  then have fo: "rev (remdups (rev (map dev_id (namedDevices someEvents)))) = [''A'', ''D'']"
    by (simp add: meterA_def valveD_def)
  show ?thesis
    using n nd sc sb di su fo by (intro conjI) assumption+
qed

section \<open>Properties of the connection\<close>

lemmas io_defs = andThen_def tryCatch_def call_def ret_def setState_def

lemmas env_defs = quietEnv_def cancelFailsEnv_def notConnectedEnv_def mtuFailsEnv_def
  alreadyConnectedEnv_def halfEnv_def readableEnv_def exampleBase64_def asciiText_def

text \<open>
  When every step of \<open>connectToDevice\<close> of \<open>ble.tsx\<close> succeeds, the function ends
  with \<open>storeReadings_ble\<close>, applied to the state in which the second read resolved.
\<close>

lemma connectToDevice_ble_ends_with_store:
  assumes "connectedDevice s = None"
    and "isDeviceConnected e (dev_id dev) = Inr False"
    and "connect e dev = Inr nd"
    and "requestMTU e nd 250 = Inr ()"
    and "discoverAllServicesAndCharacteristics e nd = Inr ()"
    and "readCharacteristicForService e nd ''180F'' ''2A19'' = Inr battery"
    and "readCharacteristicForService e nd ''005a02fe-bea5-46a0-c000-73c0d9b578fc''
           ''005a02fe-bea5-46a0-c101-73c0d9b578fc'' = Inr valve"
  shows "connectToDevice_ble e dev s =
     (Inr (), storeReadings_ble e battery valve
        (s\<lparr>connectedDevice := Some nd,
           calls := calls s @
             [IsDeviceConnected (dev_id dev), Connect (dev_id dev), RequestMTU (dev_id nd) 250,
              DiscoverAll (dev_id nd), ReadCharacteristic (dev_id nd) ''180F'' ''2A19'',
              ReadCharacteristic (dev_id nd) ''005a02fe-bea5-46a0-c000-73c0d9b578fc''
                ''005a02fe-bea5-46a0-c101-73c0d9b578fc'']\<rparr>))"
  using assms by (simp add: connectToDevice_ble_def storeReadings_ble_def io_defs)




text \<open>
  Claim C9, as amended. In a disconnect of a connected device whose cancel operation
  fails, the error is caught and the state is left as it was: the connected device and
  the device data stay. They are cleared when the cancel succeeds, and when the
  transport reports the device as not connected, in which case no cancel is issued.
\<close>

theorem disconnect_failed_cancel_keeps_state:
  "connectedDevice s = Some d \<Longrightarrow>
     (isConnected e d = Inr True \<longrightarrow> cancelConnection e d = Inl err \<longrightarrow>
        disconnectDevice e s
        = (Inr (), s\<lparr>calls := calls s @ [IsConnected (dev_id d), CancelConnection (dev_id d)]\<rparr>))
   \<and> (isConnected e d = Inr True \<longrightarrow> cancelConnection e d = Inr () \<longrightarrow>
        disconnectDevice e s
        = (Inr (), s\<lparr>calls := calls s @ [IsConnected (dev_id d), CancelConnection (dev_id d)],
                      connectedDevice := None, deviceData := None\<rparr>))
   \<and> (isConnected e d = Inr False \<longrightarrow>
        disconnectDevice e s
        = (Inr (), s\<lparr>calls := calls s @ [IsConnected (dev_id d)],
                      connectedDevice := None, deviceData := None\<rparr>))"
  by (simp add: disconnectDevice_def io_defs)

theorem disconnect_failed_cancel_keeps_state_witness:
  "connectedDevice readyState = Some meterA
   \<and> isConnected cancelFailsEnv meterA = Inr True
   \<and> cancelConnection cancelFailsEnv meterA = Inl (Error ''cancel failed'')
   \<and> disconnectDevice cancelFailsEnv readyState
       = (Inr (), readyState\<lparr>calls := [IsConnected ''A'', CancelConnection ''A'']\<rparr>)
   \<and> isConnected quietEnv meterA = Inr True
   \<and> cancelConnection quietEnv meterA = Inr ()
   \<and> disconnectDevice quietEnv readyState
       = (Inr (), initialState\<lparr>calls := [IsConnected ''A'', CancelConnection ''A'']\<rparr>)
   \<and> isConnected notConnectedEnv meterA = Inr False
   \<and> disconnectDevice notConnectedEnv readyState
       = (Inr (), initialState\<lparr>calls := [IsConnected ''A'']\<rparr>)"
  using disconnect_failed_cancel_keeps_state
      [of readyState meterA cancelFailsEnv "Error ''cancel failed''"]
    disconnect_failed_cancel_keeps_state [of readyState meterA quietEnv]
    disconnect_failed_cancel_keeps_state [of readyState meterA notConnectedEnv]
  by (simp add: example_defs env_defs)

text \<open>
  Claim C9 as stated fails: with a cancel that fails, the connected device and the
  device data are still there after the disconnect.
\<close>

theorem disconnect_failed_cancel_counterexample:
  "isConnected cancelFailsEnv meterA = Inr True
   \<and> cancelConnection cancelFailsEnv meterA = Inl (Error ''cancel failed'')
   \<and> connectedDevice (snd (disconnectDevice cancelFailsEnv readyState)) = Some meterA
   \<and> deviceData (snd (disconnectDevice cancelFailsEnv readyState))
       = Some [(''serialNumber'', JString ''SN1'')]"
  by (simp add: disconnectDevice_def io_defs env_defs example_defs)

lemma disconnectDevice_shape:
  "\<exists>xs. calls (snd (disconnectDevice e s)) = calls s @ xs
        \<and> (\<forall>c \<in> set xs. isTeardown c)
        \<and> (connectedDevice (snd (disconnectDevice e s)) = None
            \<or> connectedDevice (snd (disconnectDevice e s)) = connectedDevice s)
        \<and> fst (disconnectDevice e s) = Inr ()"
  by (auto simp add: disconnectDevice_def io_defs isTeardown_def
      split: option.splits sum.splits)

lemma teardown_not_setup:
  "isTeardown c \<Longrightarrow> \<not> isDiscoverRead c \<and> \<not> isMtuDiscoverRead c \<and> (\<forall>x. c \<noteq> Connect x)"
  by (auto simp add: isTeardown_def isDiscoverRead_def isMtuDiscoverRead_def split: op.splits)

text \<open>
  Claim C8, as amended. When the connect succeeds and the MTU request for 250 fails,
  the attempt ends there: the function returns, and among the operations it has issued
  there is no service discovery and no characteristic read. In \<open>App.tsx\<close> the new device
  is not installed: the connected device is as before, or cleared by the clean-up, and
  a screen that was \<open>Idle\<close> stays \<open>Idle\<close>. In \<open>ble.tsx\<close>, where the device is installed
  before the MTU request, it stays installed.
\<close>

theorem mtu_failure_aborts_connect:
  assumes c: "connect e dev = Inr cd" and m: "requestMTU e cd 250 = Inl err"
  shows "fst (connectToDevice e dev s) = Inr ()
    \<and> (\<forall>c \<in> set (newCalls s (snd (connectToDevice e dev s))). \<not> isDiscoverRead c)
    \<and> (connectedDevice (snd (connectToDevice e dev s)) = None
        \<or> connectedDevice (snd (connectToDevice e dev s)) = connectedDevice s)
    \<and> (phaseOf s = Idle \<longrightarrow> phaseOf (snd (connectToDevice e dev s)) = Idle)
    \<and> (isDeviceConnected e (dev_id dev) = Inr False \<longrightarrow>
          fst (connectToDevice_ble e dev s) = Inr ()
        \<and> (\<forall>c \<in> set (newCalls s (snd (connectToDevice_ble e dev s))). \<not> isDiscoverRead c)
        \<and> connectedDevice (snd (connectToDevice_ble e dev s)) = Some cd)"
proof -
  let ?s1 = "s\<lparr>calls := calls s @ [Connect (dev_id dev), RequestMTU (dev_id cd) 250]\<rparr>"
  have app: "connectToDevice e dev s
             = (if connectedDevice s \<noteq> None then disconnectDevice e ?s1 else (Inr (), ?s1))"
    using c m by (simp add: connectToDevice_def io_defs)
  obtain xs where xs: "calls (snd (disconnectDevice e ?s1)) = calls ?s1 @ xs"
      "\<forall>c \<in> set xs. isTeardown c"
      "connectedDevice (snd (disconnectDevice e ?s1)) = None
       \<or> connectedDevice (snd (disconnectDevice e ?s1)) = connectedDevice ?s1"
      "fst (disconnectDevice e ?s1) = Inr ()"
    using disconnectDevice_shape [of e ?s1] by blast
  have part1: "fst (connectToDevice e dev s) = Inr ()
    \<and> (\<forall>c \<in> set (newCalls s (snd (connectToDevice e dev s))). \<not> isDiscoverRead c)
    \<and> (connectedDevice (snd (connectToDevice e dev s)) = None
        \<or> connectedDevice (snd (connectToDevice e dev s)) = connectedDevice s)"
  proof (cases "connectedDevice s = None")
    case True
    then show ?thesis by (simp add: app newCalls_def isDiscoverRead_def)
  next
    case False
    have "newCalls s (snd (disconnectDevice e ?s1))
          = [Connect (dev_id dev), RequestMTU (dev_id cd) 250] @ xs"
      using xs(1) by (simp add: newCalls_def)
    then show ?thesis
      using False xs(2,3,4) teardown_not_setup by (auto simp add: app isDiscoverRead_def)
  qed
  then have idle: "phaseOf s = Idle \<longrightarrow> phaseOf (snd (connectToDevice e dev s)) = Idle"
    by (auto simp add: phaseOf_def)
  have part2: "fst (connectToDevice_ble e dev s) = Inr ()
        \<and> (\<forall>c \<in> set (newCalls s (snd (connectToDevice_ble e dev s))). \<not> isDiscoverRead c)
        \<and> connectedDevice (snd (connectToDevice_ble e dev s)) = Some cd"
    if i: "isDeviceConnected e (dev_id dev) = Inr False"
  proof -
    let ?pre = "if connectedDevice s \<noteq> None then disconnectDevice e s else (Inr (), s)"
    obtain ys where ys: "calls (snd ?pre) = calls s @ ys" "\<forall>c \<in> set ys. isTeardown c"
        "fst ?pre = Inr ()"
      using disconnectDevice_shape [of e s] by (cases "connectedDevice s = None") auto
    obtain s' where pre: "?pre = (Inr (), s')"
      using ys(3) by (cases ?pre) auto
    have ble: "connectToDevice_ble e dev s
               = (Inr (), s'\<lparr>calls := calls s' @ [IsDeviceConnected (dev_id dev),
                    Connect (dev_id dev), RequestMTU (dev_id cd) 250],
                  connectedDevice := Some cd\<rparr>)"
      using c m i pre by (simp add: connectToDevice_ble_def io_defs split: if_splits)
    have "calls s' = calls s @ ys" using ys(1) pre by simp
    then have "newCalls s (snd (connectToDevice_ble e dev s))
               = ys @ [IsDeviceConnected (dev_id dev), Connect (dev_id dev),
                       RequestMTU (dev_id cd) 250]"
      by (simp add: ble newCalls_def)
    then show ?thesis using ys(2) teardown_not_setup by (auto simp add: ble isDiscoverRead_def)
  qed
  show ?thesis using part1 idle part2 by blast
qed

theorem mtu_failure_aborts_connect_witness:
  "connect mtuFailsEnv valveD = Inr valveD
   \<and> requestMTU mtuFailsEnv valveD 250 = Inl (Error ''mtu failed'')
   \<and> isDeviceConnected mtuFailsEnv (dev_id valveD) = Inr False
   \<and> phaseOf initialState = Idle
   \<and> fst (connectToDevice mtuFailsEnv valveD initialState) = Inr ()
   \<and> phaseOf (snd (connectToDevice mtuFailsEnv valveD initialState)) = Idle
   \<and> connectedDevice (snd (connectToDevice mtuFailsEnv valveD readyState)) = None
   \<and> newCalls readyState (snd (connectToDevice mtuFailsEnv valveD readyState))
       = [Connect ''D'', RequestMTU ''D'' 250, IsConnected ''A'', CancelConnection ''A'']
   \<and> connectedDevice (snd (connectToDevice_ble mtuFailsEnv valveD readyState)) = Some valveD
   \<and> newCalls readyState (snd (connectToDevice_ble mtuFailsEnv valveD readyState))
       = [IsConnected ''A'', CancelConnection ''A'', IsDeviceConnected ''D'', Connect ''D'',
          RequestMTU ''D'' 250]"
  using mtu_failure_aborts_connect [of mtuFailsEnv valveD valveD "Error ''mtu failed''" initialState]
    mtu_failure_aborts_connect [of mtuFailsEnv valveD valveD "Error ''mtu failed''" readyState]
  by (simp add: connectToDevice_def connectToDevice_ble_def disconnectDevice_def io_defs
      newCalls_def phaseOf_def env_defs example_defs)

text \<open>
  Claim C8 as stated fails: from the initial state, with a connect that succeeds and
  an MTU request that fails, the only operations are the connect and the MTU request,
  and the screen ends \<open>Idle\<close>; in \<open>ble.tsx\<close> the operations end with the MTU request
  as well.
\<close>

theorem mtu_failure_counterexample:
  "connect mtuFailsEnv meterA = Inr meterA
   \<and> requestMTU mtuFailsEnv meterA 250 = Inl (Error ''mtu failed'')
   \<and> calls (snd (connectToDevice mtuFailsEnv meterA initialState))
       = [Connect ''A'', RequestMTU ''A'' 250]
   \<and> phaseOf (snd (connectToDevice mtuFailsEnv meterA initialState)) = Idle
   \<and> calls (snd (connectToDevice_ble mtuFailsEnv meterA initialState))
       = [IsDeviceConnected ''A'', Connect ''A'', RequestMTU ''A'' 250]"
  by (simp add: connectToDevice_def connectToDevice_ble_def io_defs phaseOf_def
      env_defs example_defs)

text \<open>
  Claim C10. In \<open>ble.tsx\<close>, when the transport reports the device as already
  connected, \<open>connectToDevice\<close> installs it as the connected device and returns; the
  operations it has issued contain no MTU request, no service discovery, no
  characteristic read and no connect.
\<close>

theorem already_connected_skips_setup:
  assumes "isDeviceConnected e (dev_id dev) = Inr True"
  shows "fst (connectToDevice_ble e dev s) = Inr ()
    \<and> connectedDevice (snd (connectToDevice_ble e dev s)) = Some dev
    \<and> phaseOf (snd (connectToDevice_ble e dev s)) = Ready
    \<and> (\<forall>c \<in> set (newCalls s (snd (connectToDevice_ble e dev s))). \<not> isMtuDiscoverRead c)
    \<and> (\<forall>x. Connect x \<notin> set (newCalls s (snd (connectToDevice_ble e dev s))))"
proof -
  let ?pre = "if connectedDevice s \<noteq> None then disconnectDevice e s else (Inr (), s)"
  obtain ys where ys: "calls (snd ?pre) = calls s @ ys" "\<forall>c \<in> set ys. isTeardown c"
      "fst ?pre = Inr ()"
    using disconnectDevice_shape [of e s] by (cases "connectedDevice s = None") auto
  obtain s' where pre: "?pre = (Inr (), s')"
    using ys(3) by (cases ?pre) auto
  have ble: "connectToDevice_ble e dev s
             = (Inr (), s'\<lparr>calls := calls s' @ [IsDeviceConnected (dev_id dev)],
                  connectedDevice := Some dev\<rparr>)"
    using assms pre by (simp add: connectToDevice_ble_def io_defs split: if_splits)
  have "calls s' = calls s @ ys" using ys(1) pre by simp
  then have "newCalls s (snd (connectToDevice_ble e dev s)) = ys @ [IsDeviceConnected (dev_id dev)]"
    by (simp add: ble newCalls_def)
  then show ?thesis
    using ys(2) teardown_not_setup by (auto simp add: ble isMtuDiscoverRead_def phaseOf_def)
qed

theorem already_connected_skips_setup_witness:
  "isDeviceConnected alreadyConnectedEnv (dev_id meterA) = Inr True
   \<and> connectedDevice (snd (connectToDevice_ble alreadyConnectedEnv meterA initialState))
       = Some meterA
   \<and> phaseOf (snd (connectToDevice_ble alreadyConnectedEnv meterA initialState)) = Ready
   \<and> newCalls initialState (snd (connectToDevice_ble alreadyConnectedEnv meterA initialState))
       = [IsDeviceConnected ''A'']"
  using already_connected_skips_setup [of alreadyConnectedEnv meterA initialState]
  by (simp add: connectToDevice_ble_def io_defs newCalls_def env_defs example_defs)

section \<open>Properties of the device-information fetch\<close>

lemmas uuid_defs = services_GAP_def services_DEVICE_INFO_def characteristics_deviceName_def
  characteristics_appearance_def characteristics_serialNumber_def
  characteristics_firmwareVersion_def characteristics_hardwareRevisionString_def

lemma fetch_try_failed_read:
  assumes "(sv, ch) \<in> set standardReads" and "readCharacteristicForService e dev sv ch = Inl err"
  shows "isl (fst (fetchDeviceInformation_try e dev s))"
  using assms
  by (auto simp add: standardReads_def fetchDeviceInformation_try_def readChar_def io_defs
      split: sum.splits prod.splits)

lemma fetch_keeps_state:
  "fst (fetchDeviceInformation e dev s) = Inr ()
   \<and> deviceData (snd (fetchDeviceInformation e dev s)) = deviceData s
   \<and> connectedDevice (snd (fetchDeviceInformation e dev s)) = connectedDevice s"
  by (auto simp add: fetchDeviceInformation_def fetchDeviceInformation_try_def readChar_def io_defs
      split: sum.splits prod.splits)

lemma fetch_try_Inr_iff:
  "fst (fetchDeviceInformation_try e dev s) = Inr info \<longleftrightarrow>
     (isConnected e dev = Inr True
      \<or> (isConnected e dev = Inr False \<and> (\<exists>d. connect e dev = Inr d)
          \<and> discoverAllServicesAndCharacteristics e dev = Inr ()))
   \<and> (\<exists>v1 v2 v3 v4 v5 v6 a.
         readCharacteristicForService e dev services_GAP characteristics_deviceName = Inr v1
       \<and> readCharacteristicForService e dev services_GAP characteristics_appearance = Inr v2
       \<and> readCharacteristicForService e dev services_DEVICE_INFO characteristics_serialNumber
           = Inr v3
       \<and> readCharacteristicForService e dev services_DEVICE_INFO characteristics_firmwareVersion
           = Inr v4
       \<and> readCharacteristicForService e dev services_DEVICE_INFO
             characteristics_hardwareRevisionString = Inr v5
       \<and> readCharacteristicForService e dev services_DEVICE_INFO ''180F'' = Inr v6
       \<and> readUInt16LE (Buffer_from_base64 e (orElse v2 [])) 0 = Inr a
       \<and> info =
           \<lparr>deviceName = toString_utf8 e (Buffer_from_base64 e (orElse v1 [])),
            appearance = a,
            serialNumber = toString_utf8 e (Buffer_from_base64 e (orElse v3 [])),
            firmwareVersion = toString_utf8 e (Buffer_from_base64 e (orElse v4 [])),
            hardwareRevisionString = toString_utf8 e (Buffer_from_base64 e (orElse v5 [])),
            manufacturer = toString_utf8 e (Buffer_from_base64 e (orElse v6 []))\<rparr>)"
  by (auto simp add: fetchDeviceInformation_try_def readChar_def io_defs
      split: sum.splits prod.splits if_splits)

text \<open>
  Claim C6, as amended. The six reads run in sequence inside one \<open>try\<close> block. If any
  of them fails, the block fails as a whole: it yields an error and no field, whatever
  the reads before it returned. The block yields the six decoded fields exactly when
  the connection check succeeds (the device is connected, or it is not and the
  reconnect and the discovery succeed), all six reads succeed, and the appearance value
  decodes to at least two bytes; in every other case it yields an error. The function
  itself returns normally in all cases and leaves the device data and the connected
  device as they were.
\<close>

theorem fetch_fails_on_any_failed_read:
  "((\<exists>(sv, ch) \<in> set standardReads. \<exists>err. readCharacteristicForService e dev sv ch = Inl err)
      \<longrightarrow> isl (fst (fetchDeviceInformation_try e dev s)))
   \<and> fst (fetchDeviceInformation e dev s) = Inr ()
   \<and> deviceData (snd (fetchDeviceInformation e dev s)) = deviceData s
   \<and> connectedDevice (snd (fetchDeviceInformation e dev s)) = connectedDevice s
   \<and> (fst (fetchDeviceInformation_try e dev s) = Inr info \<longleftrightarrow>
        (isConnected e dev = Inr True
         \<or> (isConnected e dev = Inr False \<and> (\<exists>d. connect e dev = Inr d)
             \<and> discoverAllServicesAndCharacteristics e dev = Inr ()))
      \<and> (\<exists>v1 v2 v3 v4 v5 v6 a.
            readCharacteristicForService e dev services_GAP characteristics_deviceName = Inr v1
          \<and> readCharacteristicForService e dev services_GAP characteristics_appearance = Inr v2
          \<and> readCharacteristicForService e dev services_DEVICE_INFO characteristics_serialNumber
              = Inr v3
          \<and> readCharacteristicForService e dev services_DEVICE_INFO
                characteristics_firmwareVersion = Inr v4
          \<and> readCharacteristicForService e dev services_DEVICE_INFO
                characteristics_hardwareRevisionString = Inr v5
          \<and> readCharacteristicForService e dev services_DEVICE_INFO ''180F'' = Inr v6
          \<and> readUInt16LE (Buffer_from_base64 e (orElse v2 [])) 0 = Inr a
          \<and> info =
              \<lparr>deviceName = toString_utf8 e (Buffer_from_base64 e (orElse v1 [])),
               appearance = a,
               serialNumber = toString_utf8 e (Buffer_from_base64 e (orElse v3 [])),
               firmwareVersion = toString_utf8 e (Buffer_from_base64 e (orElse v4 [])),
               hardwareRevisionString = toString_utf8 e (Buffer_from_base64 e (orElse v5 [])),
               manufacturer = toString_utf8 e (Buffer_from_base64 e (orElse v6 []))\<rparr>))
   \<and> (isl (fst (fetchDeviceInformation_try e dev s))
        \<longleftrightarrow> (\<forall>i. fst (fetchDeviceInformation_try e dev s) \<noteq> Inr i))"
proof -
  have fail: "(\<exists>(sv, ch) \<in> set standardReads. \<exists>err. readCharacteristicForService e dev sv ch = Inl err)
      \<longrightarrow> isl (fst (fetchDeviceInformation_try e dev s))"
    using fetch_try_failed_read [of _ _ e dev _ s] by blast
  have either: "isl (fst (fetchDeviceInformation_try e dev s))
        \<longleftrightarrow> (\<forall>i. fst (fetchDeviceInformation_try e dev s) \<noteq> Inr i)"
    by (cases "fst (fetchDeviceInformation_try e dev s)") simp_all
  show ?thesis
    using fail fetch_keeps_state [of e dev s] fetch_try_Inr_iff [of e dev s info] either
    by (intro conjI) (assumption | blast)+
qed

theorem fetch_fails_on_any_failed_read_witness:
  "(services_DEVICE_INFO, characteristics_firmwareVersion) \<in> set standardReads
   \<and> readCharacteristicForService halfEnv meterA services_DEVICE_INFO
        characteristics_firmwareVersion = Inl (Error ''read failed'')
   \<and> isl (fst (fetchDeviceInformation_try halfEnv meterA readyState))
   \<and> deviceData (snd (fetchDeviceInformation halfEnv meterA readyState)) = deviceData readyState
   \<and> isConnected readableEnv meterA = Inr True
   \<and> map (\<lambda>(sv, ch). readCharacteristicForService readableEnv meterA sv ch) standardReads
       = [Inr (Some ''TTE=''), Inr (Some ''TTE=''), Inr (Some ''TTE=''), Inr (Some ''TTE=''),
          Inr (Some ''TTE=''), Inr (Some ''TTE='')]
   \<and> readUInt16LE (Buffer_from_base64 readableEnv ''TTE='') 0 = Inr 12621
   \<and> fst (fetchDeviceInformation_try readableEnv meterA readyState) =
       Inr \<lparr>deviceName = ''M1'', appearance = 12621, serialNumber = ''M1'',
            firmwareVersion = ''M1'', hardwareRevisionString = ''M1'', manufacturer = ''M1''\<rparr>
   \<and> readUInt16LE (Buffer_from_base64 quietEnv []) 0 = Inl RangeError
   \<and> isl (fst (fetchDeviceInformation_try quietEnv meterA readyState))"
proof -
  have r: "readCharacteristicForService halfEnv meterA services_DEVICE_INFO
        characteristics_firmwareVersion = Inl (Error ''read failed'')"
    by (simp add: env_defs uuid_defs)
  have m: "(services_DEVICE_INFO, characteristics_firmwareVersion) \<in> set standardReads"
    by (simp add: standardReads_def)
  have half: "isl (fst (fetchDeviceInformation_try halfEnv meterA readyState))
     \<and> deviceData (snd (fetchDeviceInformation halfEnv meterA readyState)) = deviceData readyState"
    using fetch_fails_on_any_failed_read [of halfEnv meterA readyState] m r by blast
  have c: "isConnected readableEnv meterA = Inr True"
    by (simp add: env_defs)
  have q: "map (\<lambda>(sv, ch). readCharacteristicForService readableEnv meterA sv ch) standardReads
       = [Inr (Some ''TTE=''), Inr (Some ''TTE=''), Inr (Some ''TTE=''), Inr (Some ''TTE=''),
          Inr (Some ''TTE=''), Inr (Some ''TTE='')]"
    by (simp add: standardReads_def env_defs)
  have a: "readUInt16LE (Buffer_from_base64 readableEnv ''TTE='') 0 = Inr 12621"
    by (simp add: env_defs readUInt16LE_def checkOffset_def)
  have t: "toString_utf8 readableEnv (Buffer_from_base64 readableEnv ''TTE='') = ''M1''"
    by (simp add: env_defs char_of_def bit_Suc_0_iff)
  have rd: "\<And>sv ch. readCharacteristicForService readableEnv meterA sv ch = Inr (Some ''TTE='')"
    by (simp add: env_defs)
  have ok: "fst (fetchDeviceInformation_try readableEnv meterA readyState) =
       Inr \<lparr>deviceName = ''M1'', appearance = 12621, serialNumber = ''M1'',
            firmwareVersion = ''M1'', hardwareRevisionString = ''M1'', manufacturer = ''M1''\<rparr>"
    using fetch_fails_on_any_failed_read [of readableEnv meterA readyState
        "\<lparr>deviceName = ''M1'', appearance = 12621, serialNumber = ''M1'',
          firmwareVersion = ''M1'', hardwareRevisionString = ''M1'', manufacturer = ''M1''\<rparr>"]
      c a t
    by (simp add: rd orElse_def)
  have e0: "readUInt16LE (Buffer_from_base64 quietEnv []) 0 = Inl RangeError"
    by (simp add: env_defs readUInt16LE_def checkOffset_def)
  have rn: "\<And>sv ch. readCharacteristicForService quietEnv meterA sv ch = Inr None"
    by (simp add: env_defs)
  have none: "isl (fst (fetchDeviceInformation_try quietEnv meterA readyState))"
  proof -
    have "\<forall>i. fst (fetchDeviceInformation_try quietEnv meterA readyState) \<noteq> Inr i"
    proof
      fix i
      show "fst (fetchDeviceInformation_try quietEnv meterA readyState) \<noteq> Inr i"
        using fetch_fails_on_any_failed_read [of quietEnv meterA readyState i] e0
        by (simp add: rn orElse_def)
    qed
    then show ?thesis
      using fetch_fails_on_any_failed_read [of quietEnv meterA readyState] by blast
  qed
  show ?thesis
    using m r half c q a ok e0 none by (intro conjI) (assumption | blast)+
qed

text \<open>
  Claim C6 as stated fails: with the first three reads succeeding and the other three
  failing, the block yields the error of the fourth read and no field at all, and the
  device data is what it was before.
\<close>

theorem fetch_three_of_six_fails:
  "readCharacteristicForService halfEnv meterA services_GAP characteristics_deviceName
     = Inr (Some ''TTE='')
   \<and> readCharacteristicForService halfEnv meterA services_GAP characteristics_appearance
     = Inr (Some ''TTE='')
   \<and> readCharacteristicForService halfEnv meterA services_DEVICE_INFO characteristics_serialNumber
     = Inr (Some ''TTE='')
   \<and> readCharacteristicForService halfEnv meterA services_DEVICE_INFO
        characteristics_firmwareVersion = Inl (Error ''read failed'')
   \<and> readCharacteristicForService halfEnv meterA services_DEVICE_INFO
        characteristics_hardwareRevisionString = Inl (Error ''read failed'')
   \<and> readCharacteristicForService halfEnv meterA services_DEVICE_INFO ''180F''
     = Inl (Error ''read failed'')
   \<and> fst (fetchDeviceInformation_try halfEnv meterA readyState) = Inl (Error ''read failed'')
   \<and> deviceData (snd (fetchDeviceInformation halfEnv meterA readyState)) = deviceData readyState"
  by (simp add: env_defs uuid_defs fetchDeviceInformation_def
      fetchDeviceInformation_try_def readChar_def io_defs readUInt16LE_def checkOffset_def)

end
